theory Spec2Isabelle
  imports Complex_Main "HOL-Library.Sublist"
begin

section \<open>Python values, exceptions and result payloads\<close>

text \<open>
  The two tool functions of \<^verbatim>\<open>weather_distance_app.py\<close> are embedded as HOL functions.

  \<^item> A Python \<^verbatim>\<open>str\<close> is a \<^typ>\<open>string\<close>: the model covers the code points below 256.
  \<^item> A Python \<^verbatim>\<open>float\<close> is a \<^typ>\<open>real\<close>: the arithmetic is the exact one, the rounding
    error of IEEE doubles, infinities and NaN are not part of the model.
  \<^item> An exception is a value of \<open>exn\<close>; a computation that may raise returns
    \<open>exn + 'a\<close> (\<open>Inl\<close> the exception raised), and each \<^verbatim>\<open>except\<close> clause is a case
    of the function that holds the \<^verbatim>\<open>try\<close>.
  \<^item> Logging is left out: it does not change what a call returns.
\<close>

datatype pykey = KStr string | KInt int

text \<open>
  The classes the \<^verbatim>\<open>except\<close> clauses tell apart, and every other subclass of
  \<^verbatim>\<open>Exception\<close> with its message.
\<close>

datatype exn =
    RequestException string
  | KeyError pykey
  | IndexError string
  | TypeError string
  | ValueError string
  | OtherException string

text \<open>
  \<^verbatim>\<open>repr\<close> of a dictionary key. The keys the code subscripts with are the literals
  \<^verbatim>\<open>"main"\<close>, \<^verbatim>\<open>"temp"\<close>, ... and \<^verbatim>\<open>0\<close>, and the lower-cased city names that passed the
  membership test; for such strings (no quote, no backslash, printable) \<^verbatim>\<open>repr\<close> puts
  single quotes around the text.
\<close>

fun str_nat :: "nat \<Rightarrow> string" where
  "str_nat n =
     (if n < 10 then [char_of (48 + n)]
      else str_nat (n div 10) @ [char_of (48 + n mod 10)])"

definition str_int :: "int \<Rightarrow> string" where
  "str_int i = (if i < 0 then CHR ''-'' # str_nat (nat (- i)) else str_nat (nat i))"

definition quoted :: "string \<Rightarrow> string" where
  "quoted s = [CHR 0x27] @ s @ [CHR 0x27]"

fun repr_key :: "pykey \<Rightarrow> string" where
  "repr_key (KStr s) = quoted s"
| "repr_key (KInt i) = str_int i"

text \<open>\<^verbatim>\<open>str(e)\<close>: the message, and for a \<^verbatim>\<open>KeyError\<close> the \<^verbatim>\<open>repr\<close> of the key.\<close>

fun str_exn :: "exn \<Rightarrow> string" where
  "str_exn (RequestException m) = m"
| "str_exn (KeyError k) = repr_key k"
| "str_exn (IndexError m) = m"
| "str_exn (TypeError m) = m"
| "str_exn (ValueError m) = m"
| "str_exn (OtherException m) = m"

text \<open>Sequencing of two computations that may raise: the first exception wins.\<close>

definition and_then :: "exn + 'a \<Rightarrow> ('a \<Rightarrow> exn + 'b) \<Rightarrow> exn + 'b" where
  "and_then r f = (case r of Inl e \<Rightarrow> Inl e | Inr v \<Rightarrow> f v)"

text \<open>
  What \<^verbatim>\<open>response.json()\<close> returns: \<^verbatim>\<open>None\<close>, a \<^verbatim>\<open>bool\<close>, an \<^verbatim>\<open>int\<close>, a \<^verbatim>\<open>float\<close>,
  a \<^verbatim>\<open>str\<close>, a \<^verbatim>\<open>list\<close> or a \<^verbatim>\<open>dict\<close> with string keys (its items, keys distinct).
\<close>

datatype json =
    JNull
  | JBool bool
  | JInt int
  | JFloat real
  | JStr string
  | JArr "json list"
  | JObj "(string \<times> json) list"

text \<open>A value of a returned dictionary, and the dictionary as its items in order.\<close>

datatype pyvalue = PStr string | PFloat real | PJson json

type_synonym payload = "(string \<times> pyvalue) list"

definition has_error :: "payload \<Rightarrow> bool" where
  "has_error d = (map_of d ''error'' \<noteq> None)"

definition error_payload :: "string \<Rightarrow> payload" where
  "error_payload msg = [(''error'', PStr msg)]"

section \<open>Built-ins\<close>

text \<open>
  \<^verbatim>\<open>str.lower()\<close> on code points below 256: the letters A to Z and the Latin-1 capitals
  (U+00C0 to U+00DE without the multiplication sign U+00D7) move up by 32.
\<close>

definition lower_char :: "char \<Rightarrow> char" where
  "lower_char c =
     (let n = (of_char c :: nat)
      in if (65 \<le> n \<and> n \<le> 90) \<or> (192 \<le> n \<and> n \<le> 222 \<and> n \<noteq> 215)
         then char_of (n + 32) else c)"

definition lower :: "string \<Rightarrow> string" where
  "lower s = map lower_char s"

text \<open>
  \<^verbatim>\<open>round(x, ndigits)\<close> of a float, for \<open>ndigits \<ge> 0\<close>: the multiple of \<open>10\<^sup>-\<^sup>n\<close> nearest
  to \<open>x\<close>, a tie going to the even multiple.
\<close>

definition py_round :: "real \<Rightarrow> nat \<Rightarrow> real" where
  "py_round x ndigits =
     (let s = 10 ^ ndigits;
          y = x * s;
          f = \<lfloor>y\<rfloor>;
          d = y - of_int f
      in of_int (if d < 1 / 2 then f
                 else if 1 / 2 < d then f + 1
                 else if even f then f else f + 1) / s)"

text \<open>\<^verbatim>\<open>math.radians\<close>, \<^verbatim>\<open>math.sqrt\<close> and \<^verbatim>\<open>math.asin\<close>; the last two raise outside their domain.\<close>

definition radians :: "real \<Rightarrow> real" where
  "radians x = x * (pi / 180)"

definition math_sqrt :: "real \<Rightarrow> exn + real" where
  "math_sqrt x = (if x < 0 then Inl (ValueError ''math domain error'') else Inr (sqrt x))"

definition math_asin :: "real \<Rightarrow> exn + real" where
  "math_asin x =
     (if x < - 1 \<or> 1 < x then Inl (ValueError ''math domain error'') else Inr (arcsin x))"

section \<open>The distance tool\<close>

record coords =
  lat :: real
  lon :: real

definition city_coordinates :: "(string \<times> coords) list" where
  "city_coordinates =
    [(''malaga'', \<lparr>lat = 36.7213, lon = - 4.4213\<rparr>),
     (''madrid'', \<lparr>lat = 40.4168, lon = - 3.7038\<rparr>),
     (''barcelona'', \<lparr>lat = 41.3851, lon = 2.1734\<rparr>),
     (''valencia'', \<lparr>lat = 39.4699, lon = - 0.3763\<rparr>),
     (''seville'', \<lparr>lat = 37.3891, lon = - 5.9845\<rparr>),
     (''fuengirola'', \<lparr>lat = 36.5393, lon = - 4.6249\<rparr>),
     (''marbella'', \<lparr>lat = 36.5100, lon = - 4.8861\<rparr>),
     (''london'', \<lparr>lat = 51.5074, lon = - 0.1278\<rparr>),
     (''paris'', \<lparr>lat = 48.8566, lon = 2.3522\<rparr>),
     (''berlin'', \<lparr>lat = 52.5200, lon = 13.4050\<rparr>),
     (''rome'', \<lparr>lat = 41.9028, lon = 12.4964\<rparr>),
     (''amsterdam'', \<lparr>lat = 52.3676, lon = 4.9041\<rparr>),
     (''lisbon'', \<lparr>lat = 38.7223, lon = - 9.1393\<rparr>),
     (''new york'', \<lparr>lat = 40.7128, lon = - 74.0060\<rparr>),
     (''los angeles'', \<lparr>lat = 34.0522, lon = - 118.2437\<rparr>),
     (''chicago'', \<lparr>lat = 41.8781, lon = - 87.6298\<rparr>),
     (''toronto'', \<lparr>lat = 43.6532, lon = - 79.3832\<rparr>),
     (''mexico city'', \<lparr>lat = 19.4326, lon = - 99.1332\<rparr>),
     (''buenos aires'', \<lparr>lat = 34.6037, lon = - 58.3816\<rparr>),
     (''tokyo'', \<lparr>lat = 35.6762, lon = 139.6503\<rparr>),
     (''beijing'', \<lparr>lat = 39.9042, lon = 116.4074\<rparr>),
     (''sydney'', \<lparr>lat = 33.8688, lon = 151.2093\<rparr>),
     (''singapore'', \<lparr>lat = 1.3521, lon = 103.8198\<rparr>),
     (''dubai'', \<lparr>lat = 25.2048, lon = 55.2708\<rparr>)]"

text \<open>\<^verbatim>\<open>d[k]\<close> on a dictionary: the value, or \<^verbatim>\<open>KeyError(k)\<close>.\<close>

definition getitem :: "(string \<times> 'v) list \<Rightarrow> string \<Rightarrow> exn + 'v" where
  "getitem d k = (case map_of d k of None \<Rightarrow> Inl (KeyError (KStr k)) | Some v \<Rightarrow> Inr v)"

definition haversine_distance :: "real \<Rightarrow> real \<Rightarrow> real \<Rightarrow> real \<Rightarrow> exn + real" where
  "haversine_distance lat1 lon1 lat2 lon2 =
     (let lat1 = radians lat1; lon1 = radians lon1;
          lat2 = radians lat2; lon2 = radians lon2;
          dlon = lon2 - lon1;
          dlat = lat2 - lat1;
          a = (sin (dlat / 2))\<^sup>2 + cos lat1 * cos lat2 * (sin (dlon / 2))\<^sup>2
      in and_then (math_sqrt a) (\<lambda>root.
         and_then (math_asin root) (\<lambda>angle.
           let c = 2 * angle;
               r = 6371
           in Inr (c * r))))"

definition not_found_message :: "string \<Rightarrow> string" where
  "not_found_message city = ''Coordinates for '' @ city @ '' not found. Please try another city.''"

text \<open>The body of the \<^verbatim>\<open>try\<close> of \<^verbatim>\<open>calculate_distance\<close>.\<close>

definition calculate_distance_try :: "string \<Rightarrow> string \<Rightarrow> exn + payload" where
  "calculate_distance_try from_city to_city =
     (let from_city_lower = lower from_city;
          to_city_lower = lower to_city
      in if map_of city_coordinates from_city_lower = None
           then Inr [(''error'', PStr (not_found_message from_city))]
         else if map_of city_coordinates to_city_lower = None
           then Inr [(''error'', PStr (not_found_message to_city))]
         else
           and_then (getitem city_coordinates from_city_lower) (\<lambda>from_coords.
           and_then (getitem city_coordinates to_city_lower) (\<lambda>to_coords.
           and_then (haversine_distance (lat from_coords) (lon from_coords)
                       (lat to_coords) (lon to_coords)) (\<lambda>distance_km.
             let distance_miles = distance_km * 0.621371
             in Inr [(''from_city'', PStr from_city),
                     (''to_city'', PStr to_city),
                     (''distance_km'', PFloat (py_round distance_km 2)),
                     (''distance_miles'', PFloat (py_round distance_miles 2))]))))"

text \<open>The tool: the body under its two \<^verbatim>\<open>except\<close> clauses, \<^verbatim>\<open>KeyError\<close> first.\<close>

definition calculate_distance :: "string \<Rightarrow> string \<Rightarrow> payload" where
  "calculate_distance from_city to_city =
     (case calculate_distance_try from_city to_city of
        Inr result \<Rightarrow> result
      | Inl (KeyError k) \<Rightarrow> [(''error'', PStr (''City not found: '' @ str_exn (KeyError k)))]
      | Inl e \<Rightarrow> [(''error'', PStr (str_exn e))])"

section \<open>The weather tool\<close>

text \<open>
  The world outside the function is a parameter: \<open>environ\<close> is \<^verbatim>\<open>os.environ\<close>, and
  \<open>requests_get\<close> gives, for a URL, what \<^verbatim>\<open>requests.get(url, timeout=10)\<close> does: it
  raises, or returns a response with its status code, its body text and what its
  \<^verbatim>\<open>json()\<close> method returns or raises.
\<close>

record response =
  status_code :: int
  response_text :: string
  json :: "exn + json"

definition not_subscriptable :: "string \<Rightarrow> exn" where
  "not_subscriptable tp = TypeError (quoted tp @ '' object is not subscriptable'')"

text \<open>
  \<^verbatim>\<open>v[k]\<close> for a value that came out of JSON and a key that is a string or an integer.
  A negative index of a list or a string counts from its end.
\<close>

definition sequence_index :: "'a list \<Rightarrow> int \<Rightarrow> 'a option" where
  "sequence_index xs i =
     (let n = int (length xs); j = (if i < 0 then n + i else i)
      in if 0 \<le> j \<and> j < n then Some (xs ! nat j) else None)"

fun subscript :: "json \<Rightarrow> pykey \<Rightarrow> exn + json" where
  "subscript (JObj d) (KStr k) = getitem d k"
| "subscript (JObj d) (KInt i) = Inl (KeyError (KInt i))"
| "subscript (JArr xs) (KInt i) =
     (case sequence_index xs i of
        Some v \<Rightarrow> Inr v
      | None \<Rightarrow> Inl (IndexError ''list index out of range''))"
| "subscript (JArr xs) (KStr k) =
     Inl (TypeError ''list indices must be integers or slices, not str'')"
| "subscript (JStr s) (KInt i) =
     (case sequence_index s i of
        Some c \<Rightarrow> Inr (JStr [c])
      | None \<Rightarrow> Inl (IndexError ''string index out of range''))"
| "subscript (JStr s) (KStr k) =
     Inl (TypeError (''string indices must be integers, not '' @ quoted ''str''))"
| "subscript JNull k = Inl (not_subscriptable ''NoneType'')"
| "subscript (JBool b) k = Inl (not_subscriptable ''bool'')"
| "subscript (JInt i) k = Inl (not_subscriptable ''int'')"
| "subscript (JFloat x) k = Inl (not_subscriptable ''float'')"

definition unsupported_operand :: "string \<Rightarrow> string \<Rightarrow> exn" where
  "unsupported_operand opr tp =
     TypeError (''unsupported operand type(s) for '' @ opr @ '': '' @ quoted tp
                @ '' and '' @ quoted ''int'')"

text \<open>
  \<^verbatim>\<open>v * n\<close> and \<^verbatim>\<open>v / n\<close> for an integer literal \<open>n\<close> other than zero (the code has 9
  and 5): a \<^verbatim>\<open>bool\<close> counts as 0 or 1, a string or a list is repeated by \<^verbatim>\<open>*\<close>, and
  \<^verbatim>\<open>/\<close> of numbers is a float.
\<close>

fun py_mul :: "json \<Rightarrow> int \<Rightarrow> exn + json" where
  "py_mul (JInt i) n = Inr (JInt (i * n))"
| "py_mul (JBool b) n = Inr (JInt ((if b then 1 else 0) * n))"
| "py_mul (JFloat x) n = Inr (JFloat (x * of_int n))"
| "py_mul (JStr s) n = Inr (JStr (concat (replicate (nat n) s)))"
| "py_mul (JArr xs) n = Inr (JArr (concat (replicate (nat n) xs)))"
| "py_mul JNull n = Inl (unsupported_operand ''*'' ''NoneType'')"
| "py_mul (JObj d) n = Inl (unsupported_operand ''*'' ''dict'')"

fun py_truediv :: "json \<Rightarrow> int \<Rightarrow> exn + real" where
  "py_truediv (JInt i) n = Inr (of_int i / of_int n)"
| "py_truediv (JBool b) n = Inr ((if b then 1 else 0) / of_int n)"
| "py_truediv (JFloat x) n = Inr (x / of_int n)"
| "py_truediv (JStr s) n = Inl (unsupported_operand ''/'' ''str'')"
| "py_truediv (JArr xs) n = Inl (unsupported_operand ''/'' ''list'')"
| "py_truediv JNull n = Inl (unsupported_operand ''/'' ''NoneType'')"
| "py_truediv (JObj d) n = Inl (unsupported_operand ''/'' ''dict'')"

text \<open>\<^verbatim>\<open>data[k1][k2]\<close>.\<close>

definition subscript2 :: "json \<Rightarrow> string \<Rightarrow> string \<Rightarrow> exn + json" where
  "subscript2 data k1 k2 = and_then (subscript data (KStr k1)) (\<lambda>v. subscript v (KStr k2))"

text \<open>
  The dictionary display \<^verbatim>\<open>weather_data = {...}\<close>: its values are evaluated in the order
  written, and the first one that raises ends the evaluation.
\<close>

definition weather_data :: "string \<Rightarrow> json \<Rightarrow> exn + payload" where
  "weather_data city data =
     and_then (subscript2 data ''main'' ''temp'') (\<lambda>temperature.
     and_then (subscript2 data ''main'' ''temp'') (\<lambda>temp.
     and_then (py_mul temp 9) (\<lambda>temp9.
     and_then (py_truediv temp9 5) (\<lambda>temp95.
     let temperature_f = py_round (temp95 + 32) 1 in
     and_then (and_then (subscript data (KStr ''weather'')) (\<lambda>w. subscript w (KInt 0)))
       (\<lambda>weather0.
     and_then (subscript weather0 (KStr ''description'')) (\<lambda>conditions.
     and_then (subscript2 data ''main'' ''humidity'') (\<lambda>humidity.
     and_then (subscript2 data ''wind'' ''speed'') (\<lambda>wind_speed.
     and_then (subscript2 data ''main'' ''pressure'') (\<lambda>pressure.
       Inr [(''city'', PStr city),
            (''temperature'', PJson temperature),
            (''temperature_f'', PFloat temperature_f),
            (''conditions'', PJson conditions),
            (''humidity'', PJson humidity),
            (''wind_speed'', PJson wind_speed),
            (''pressure'', PJson pressure)])))))))))"

text \<open>\<^verbatim>\<open>os.environ.get(key, default)\<close>.\<close>

definition environ_get :: "(string \<rightharpoonup> string) \<Rightarrow> string \<Rightarrow> string \<Rightarrow> string" where
  "environ_get environ key fallback = (case environ key of Some v \<Rightarrow> v | None \<Rightarrow> fallback)"

definition default_api_key :: string where
  "default_api_key = ''123455557777888899999999999''"

definition weather_url :: "string \<Rightarrow> string \<Rightarrow> string" where
  "weather_url city api_key =
     ''https://api.openweathermap.org/data/2.5/weather?q='' @ city
     @ ''&appid='' @ api_key @ ''&units=metric''"

text \<open>The body of the \<^verbatim>\<open>try\<close> of \<^verbatim>\<open>get_weather\<close>.\<close>

definition get_weather_try ::
  "(string \<rightharpoonup> string) \<Rightarrow> (string \<Rightarrow> exn + response) \<Rightarrow> string \<Rightarrow> exn + payload" where
  "get_weather_try environ requests_get city =
     (let api_key = environ_get environ ''OPENWEATHER_API_KEY'' default_api_key;
          url = weather_url city api_key
      in and_then (requests_get url) (\<lambda>response.
           if status_code response = 200
           then and_then (json response) (\<lambda>data. weather_data city data)
           else let error_msg = ''API Error: '' @ str_int (status_code response)
                                @ '' - '' @ response_text response
                in Inr [(''error'', PStr error_msg)]))"

text \<open>
  The tool: the body under its three \<^verbatim>\<open>except\<close> clauses, in the order written
  (\<^verbatim>\<open>RequestException\<close>, \<^verbatim>\<open>KeyError\<close>, \<^verbatim>\<open>Exception\<close>).
\<close>

definition get_weather ::
  "(string \<rightharpoonup> string) \<Rightarrow> (string \<Rightarrow> exn + response) \<Rightarrow> string \<Rightarrow> payload" where
  "get_weather environ requests_get city =
     (case get_weather_try environ requests_get city of
        Inr result \<Rightarrow> result
      | Inl (RequestException m) \<Rightarrow>
          [(''error'', PStr (''Network error: '' @ str_exn (RequestException m)))]
      | Inl (KeyError k) \<Rightarrow>
          [(''error'', PStr (''Could not parse weather data: '' @ str_exn (KeyError k)))]
      | Inl e \<Rightarrow> [(''error'', PStr (str_exn e))])"

section \<open>The specification's words\<close>

text \<open>
  The haversine formula as the specification writes it: both points in radians, the
  differences \<open>dlat\<close> and \<open>dlon\<close>, \<open>a = sin\<^sup>2(dlat/2) + cos(lat1) cos(lat2) sin\<^sup>2(dlon/2)\<close>,
  \<open>c = 2 asin(\<surd>a)\<close>, and the distance \<open>c \<times> 6371\<close>.
\<close>

definition spec_a :: "real \<Rightarrow> real \<Rightarrow> real \<Rightarrow> real \<Rightarrow> real" where
  "spec_a lat1 lon1 lat2 lon2 =
     (sin ((lat2 - lat1) / 2))\<^sup>2 + cos lat1 * cos lat2 * (sin ((lon2 - lon1) / 2))\<^sup>2"

definition spec_distance_km :: "coords \<Rightarrow> coords \<Rightarrow> real" where
  "spec_distance_km p q =
     2 * arcsin (sqrt (spec_a (lat p * pi / 180) (lon p * pi / 180)
                              (lat q * pi / 180) (lon q * pi / 180))) * 6371"

text \<open>
  Rounding to \<open>n\<close> decimal places, half to even: \<open>x\<close> scaled by \<open>10\<^sup>n\<close> goes to the
  nearest integer, and when it lies half way between two integers, to the even one.
\<close>

definition round_half_even :: "nat \<Rightarrow> real \<Rightarrow> real" where
  "round_half_even n x =
     (let y = x * 10 ^ n
      in (if frac y = 1 / 2 \<and> even \<lfloor>y\<rfloor> then of_int \<lfloor>y\<rfloor> else of_int (round y)) / 10 ^ n)"

text \<open>The success payload of the distance tool, and of the weather tool.\<close>

definition distance_payload :: "string \<Rightarrow> string \<Rightarrow> real \<Rightarrow> real \<Rightarrow> payload" where
  "distance_payload from_city to_city km miles =
     [(''from_city'', PStr from_city),
      (''to_city'', PStr to_city),
      (''distance_km'', PFloat km),
      (''distance_miles'', PFloat miles)]"

definition weather_payload ::
  "string \<Rightarrow> json \<Rightarrow> real \<Rightarrow> json \<Rightarrow> json \<Rightarrow> json \<Rightarrow> json \<Rightarrow> payload" where
  "weather_payload city temperature temperature_f conditions humidity wind_speed pressure =
     [(''city'', PStr city),
      (''temperature'', PJson temperature),
      (''temperature_f'', PFloat temperature_f),
      (''conditions'', PJson conditions),
      (''humidity'', PJson humidity),
      (''wind_speed'', PJson wind_speed),
      (''pressure'', PJson pressure)]"


text \<open>The gazetteer as the specification lists it: name, latitude, longitude.\<close>

definition listed_entries :: "(string \<times> real \<times> real) list" where
  "listed_entries =
    [(''malaga'', 36.7213, - 4.4213), (''madrid'', 40.4168, - 3.7038),
     (''barcelona'', 41.3851, 2.1734), (''valencia'', 39.4699, - 0.3763),
     (''seville'', 37.3891, - 5.9845), (''fuengirola'', 36.5393, - 4.6249),
     (''marbella'', 36.5100, - 4.8861), (''london'', 51.5074, - 0.1278),
     (''paris'', 48.8566, 2.3522), (''berlin'', 52.5200, 13.4050),
     (''rome'', 41.9028, 12.4964), (''amsterdam'', 52.3676, 4.9041),
     (''lisbon'', 38.7223, - 9.1393), (''new york'', 40.7128, - 74.0060),
     (''los angeles'', 34.0522, - 118.2437), (''chicago'', 41.8781, - 87.6298),
     (''toronto'', 43.6532, - 79.3832), (''mexico city'', 19.4326, - 99.1332),
     (''buenos aires'', 34.6037, - 58.3816), (''tokyo'', 35.6762, 139.6503),
     (''beijing'', 39.9042, 116.4074), (''sydney'', 33.8688, 151.2093),
     (''singapore'', 1.3521, 103.8198), (''dubai'', 25.2048, 55.2708)]"







text \<open>The URL a call requests, and the message of the branch for a status other than 200.\<close>

definition request_url :: "(string \<rightharpoonup> string) \<Rightarrow> string \<Rightarrow> string" where
  "request_url environ city =
     weather_url city (environ_get environ ''OPENWEATHER_API_KEY'' default_api_key)"

definition api_error_message :: "response \<Rightarrow> string" where
  "api_error_message resp =
     ''API Error: '' @ str_int (status_code resp) @ '' - '' @ response_text resp"





section \<open>Lower-casing and the gazetteer\<close>

lemma lower_keys:
  "map lower (map fst city_coordinates) = map fst city_coordinates"
  by code_simp






lemma distinct_keys: "distinct (map fst city_coordinates)"
  by code_simp

section \<open>The haversine term stays in the domain of the square root and the arc sine\<close>

lemma cos_prod: "cos (m - p) * cos (m + p) = (cos m)\<^sup>2 - (sin p)\<^sup>2" for m p :: real
proof -
  define a b c d where "a = cos m" and "b = cos p" and "c = sin m" and "d = sin p"
  have ac: "c * c = 1 - a * a"
    unfolding a_def c_def using sin_cos_squared_add [of m] by (simp add: power2_eq_square)
  have bd: "b * b = 1 - d * d"
    unfolding b_def d_def using sin_cos_squared_add [of p] by (simp add: power2_eq_square)
  have "cos (m - p) * cos (m + p) = (a * b + c * d) * (a * b - c * d)"
    by (simp only: cos_add cos_diff a_def b_def c_def d_def)
  also have "\<dots> = (a * a) * (b * b) - (c * c) * (d * d)"
    by (simp only: algebra_simps)
  also have "\<dots> = a * a - d * d"
    unfolding ac bd by (simp only: algebra_simps)
  finally show ?thesis
    by (simp only: a_def d_def power2_eq_square)
qed

lemma spec_a_alt:
  "spec_a l1 o1 l2 o2 =
     (sin ((l2 - l1) / 2))\<^sup>2 * (cos ((o2 - o1) / 2))\<^sup>2
     + (cos ((l1 + l2) / 2))\<^sup>2 * (sin ((o2 - o1) / 2))\<^sup>2"
proof -
  define m where "m = (l1 + l2) / 2"
  define p where "p = (l2 - l1) / 2"
  define q where "q = (o2 - o1) / 2"
  have l1: "l1 = m - p" and l2: "l2 = m + p"
    by (simp_all add: m_def p_def field_simps)
  have "cos l1 * cos l2 = (cos m)\<^sup>2 - (sin p)\<^sup>2"
    unfolding l1 l2 by (rule cos_prod)
  then have "spec_a l1 o1 l2 o2 = (sin p)\<^sup>2 + ((cos m)\<^sup>2 - (sin p)\<^sup>2) * (sin q)\<^sup>2"
    by (simp add: spec_a_def p_def q_def)
  also have "\<dots> = (sin p)\<^sup>2 * (1 - (sin q)\<^sup>2) + (cos m)\<^sup>2 * (sin q)\<^sup>2"
    by (simp add: algebra_simps)
  also have "\<dots> = (sin p)\<^sup>2 * (cos q)\<^sup>2 + (cos m)\<^sup>2 * (sin q)\<^sup>2"
    by (simp add: cos_squared_eq)
  finally show ?thesis by (simp add: m_def p_def q_def)
qed

lemma spec_a_nonneg: "0 \<le> spec_a l1 o1 l2 o2"
  unfolding spec_a_alt by (intro add_nonneg_nonneg mult_nonneg_nonneg zero_le_power2)

lemma spec_a_le_1: "spec_a l1 o1 l2 o2 \<le> 1"
proof -
  have "(sin ((l2 - l1) / 2))\<^sup>2 * (cos ((o2 - o1) / 2))\<^sup>2 \<le> 1 * (cos ((o2 - o1) / 2))\<^sup>2"
    by (intro mult_right_mono zero_le_power2) (simp add: sin_squared_eq)
  moreover have "(cos ((l1 + l2) / 2))\<^sup>2 * (sin ((o2 - o1) / 2))\<^sup>2 \<le> 1 * (sin ((o2 - o1) / 2))\<^sup>2"
    by (intro mult_right_mono zero_le_power2) (simp add: cos_squared_eq)
  moreover have "(cos ((o2 - o1) / 2))\<^sup>2 + (sin ((o2 - o1) / 2))\<^sup>2 = 1"
    by (rule sin_cos_squared_add2)
  ultimately show ?thesis
    unfolding spec_a_alt by linarith
qed

lemma haversine_distance_eq:
  "haversine_distance lat1 lon1 lat2 lon2 =
     Inr (2 * arcsin (sqrt (spec_a (radians lat1) (radians lon1) (radians lat2) (radians lon2)))
          * 6371)"
proof -
  let ?a = "spec_a (radians lat1) (radians lon1) (radians lat2) (radians lon2)"
  have a0: "0 \<le> ?a" by (rule spec_a_nonneg)
  have a1: "?a \<le> 1" by (rule spec_a_le_1)
  have s0: "0 \<le> sqrt ?a" using a0 by simp
  have s1: "sqrt ?a \<le> 1" using a1 by simp
  have "math_sqrt ?a = Inr (sqrt ?a)" using a0 by (simp add: math_sqrt_def)
  moreover have "math_asin (sqrt ?a) = Inr (arcsin (sqrt ?a))"
  proof -
    have "\<not> (sqrt ?a < - 1 \<or> 1 < sqrt ?a)" using s0 s1 by linarith
    then show ?thesis unfolding math_asin_def by (simp only: if_False)
  qed
  ultimately show ?thesis
    by (simp add: haversine_distance_def Let_def and_then_def spec_a_def)
qed

section \<open>Rounding, and what the distance tool returns\<close>

lemma round_frac: "round y = (if frac y < 1 / 2 then \<lfloor>y\<rfloor> else \<lfloor>y\<rfloor> + 1)" for y :: real
proof -
  have "frac (1 / 2 :: real) = 1 / 2" by (simp add: frac_eq)
  moreover have "\<lfloor>1 / 2 :: real\<rfloor> = 0" by simp
  ultimately show ?thesis
    unfolding round_def by (simp add: floor_add)
qed

lemma py_round_half_even: "py_round x n = round_half_even n x"
proof -
  define y where "y = x * 10 ^ n"
  have d: "y - of_int \<lfloor>y\<rfloor> = frac y" by (simp add: frac_def)
  show ?thesis
    unfolding py_round_def round_half_even_def Let_def y_def [symmetric] d round_frac
    by auto
qed

lemma calculate_distance_from_missing:
  "map_of city_coordinates (lower from_city) = None \<Longrightarrow>
   calculate_distance from_city to_city = error_payload (not_found_message from_city)"
  by (simp add: calculate_distance_def calculate_distance_try_def Let_def error_payload_def)

lemma calculate_distance_to_missing:
  "map_of city_coordinates (lower from_city) = Some p \<Longrightarrow>
   map_of city_coordinates (lower to_city) = None \<Longrightarrow>
   calculate_distance from_city to_city = error_payload (not_found_message to_city)"
  by (simp add: calculate_distance_def calculate_distance_try_def Let_def error_payload_def)

lemma spec_distance_km_radians:
  "spec_distance_km p q =
     2 * arcsin (sqrt (spec_a (radians (lat p)) (radians (lon p))
                              (radians (lat q)) (radians (lon q)))) * 6371"
  by (simp add: spec_distance_km_def radians_def)

lemma calculate_distance_found:
  assumes "map_of city_coordinates (lower from_city) = Some p"
    and "map_of city_coordinates (lower to_city) = Some q"
  shows "calculate_distance from_city to_city =
     distance_payload from_city to_city
       (round_half_even 2 (spec_distance_km p q))
       (round_half_even 2 (spec_distance_km p q * 0.621371))"
  using assms
  by (simp add: calculate_distance_def calculate_distance_try_def Let_def getitem_def
      and_then_def haversine_distance_eq spec_distance_km_radians distance_payload_def
      py_round_half_even)

lemma has_error_error_payload: "has_error (error_payload msg)"
  by (simp add: has_error_def error_payload_def)

lemma has_error_distance_payload: "\<not> has_error (distance_payload f t km mi)"
  by (simp add: has_error_def distance_payload_def)

lemma sublist_not_found_message: "sublist city (not_found_message city)"
  unfolding not_found_message_def sublist_def by blast

lemma map_of_keys: "map_of city_coordinates k = None \<longleftrightarrow> k \<notin> set (map fst city_coordinates)"
  by (simp add: map_of_eq_None_iff)





lemma sin_half_diff: "sin ((x - y) / 2) = - sin ((y - x) / 2)" for x y :: real
proof -
  have e: "(x - y) / 2 = - ((y - x) / 2)" by (simp add: field_simps)
  show ?thesis by (subst e) (rule sin_minus)
qed

lemma spec_a_sym: "spec_a l1 o1 l2 o2 = spec_a l2 o2 l1 o1"
  unfolding spec_a_def
  by (simp add: sin_half_diff [of l2 l1] sin_half_diff [of o2 o1])

lemma spec_distance_km_sym: "spec_distance_km p q = spec_distance_km q p"
  unfolding spec_distance_km_def by (subst spec_a_sym) (rule refl)

lemma spec_distance_km_same: "spec_distance_km p p = 0"
  by (simp add: spec_distance_km_def spec_a_def)

lemma round_half_even_0: "round_half_even n 0 = 0"
  by (simp add: round_half_even_def)

section \<open>What rounding half to even gives, and the gazetteer as listed\<close>

lemma round_half_even_grid: "\<exists>k::int. round_half_even n x = of_int k / 10 ^ n"
  unfolding round_half_even_def Let_def by (cases "frac (x * 10 ^ n) = 1 / 2 \<and> even \<lfloor>x * 10 ^ n\<rfloor>") auto

lemma round_half_even_near: "\<bar>round_half_even n x - x\<bar> \<le> 1 / (2 * 10 ^ n)"
proof -
  define y where "y = x * 10 ^ n"
  define r :: int where "r = (if frac y = 1 / 2 \<and> even \<lfloor>y\<rfloor> then \<lfloor>y\<rfloor> else round y)"
  have pos: "(0::real) < 10 ^ n" by simp
  have bound: "\<bar>of_int r - y\<bar> \<le> 1 / 2"
  proof (cases "frac y = 1 / 2 \<and> even \<lfloor>y\<rfloor>")
    case True
    then have "y - of_int \<lfloor>y\<rfloor> = 1 / 2" by (simp add: frac_def)
    with True show ?thesis by (simp add: r_def)
  next
    case False
    then show ?thesis using of_int_round_abs_le [of y] by (auto simp add: r_def)
  qed
  have eq: "round_half_even n x - x = (of_int r - y) / 10 ^ n"
    by (simp add: round_half_even_def Let_def y_def r_def field_simps)
  have "\<bar>round_half_even n x - x\<bar> = \<bar>of_int r - y\<bar> / 10 ^ n"
    by (simp only: eq abs_divide abs_of_pos [OF pos])
  also have "\<dots> \<le> (1 / 2) / 10 ^ n"
    by (rule divide_right_mono [OF bound less_imp_le [OF pos]])
  finally show ?thesis by simp
qed

lemma round_half_even_tie:
  assumes "frac (x * 10 ^ n) = 1 / 2"
  shows "\<exists>k::int. even k \<and> round_half_even n x = of_int k / 10 ^ n"
proof (cases "even \<lfloor>x * 10 ^ n\<rfloor>")
  case True
  with assms have "round_half_even n x = of_int \<lfloor>x * 10 ^ n\<rfloor> / 10 ^ n"
    by (simp add: round_half_even_def Let_def)
  with True show ?thesis by blast
next
  case False
  have "round (x * 10 ^ n) = \<lfloor>x * 10 ^ n\<rfloor> + 1"
    using assms by (simp add: round_frac)
  with False have "round_half_even n x = of_int (\<lfloor>x * 10 ^ n\<rfloor> + 1) / 10 ^ n"
    by (simp add: round_half_even_def Let_def)
  moreover have "even (\<lfloor>x * 10 ^ n\<rfloor> + 1)" using False by simp
  ultimately show ?thesis by blast
qed

lemma listed: "map (\<lambda>(k, c). (k, lat c, lon c)) city_coordinates = listed_entries"
  by (simp add: city_coordinates_def listed_entries_def)

lemma card_keys: "card (set (map fst city_coordinates)) = 24"
  using distinct_card [OF distinct_keys] by (simp add: city_coordinates_def)

lemma cc_from_listed:
  "city_coordinates = map (\<lambda>(k, la, lo). (k, \<lparr>lat = la, lon = lo\<rparr>)) listed_entries"
  by (simp add: city_coordinates_def listed_entries_def)

lemma map_of_entries:
  "map_of (map (\<lambda>(k, la, lo). (k, \<lparr>lat = la, lon = lo\<rparr>)) xs) k =
     map_option (\<lambda>(la, lo). \<lparr>lat = la, lon = lo\<rparr>) (map_of xs k)"
  by (induction xs) auto

lemma map_of_listed:
  "map_of city_coordinates k =
     map_option (\<lambda>(la, lo). \<lparr>lat = la, lon = lo\<rparr>) (map_of listed_entries k)"
  unfolding cc_from_listed by (rule map_of_entries)

section \<open>Claims about the distance tool\<close>

text \<open>
  Claim C10. When neither the lower-cased origin nor the lower-cased destination is a key
  of the gazetteer, \<open>calculate_distance\<close> returns the error payload that names the
  origin: the origin is looked up first and the destination is not examined, so the
  result is the one any other destination gives.
\<close>
theorem origin_checked_first:
  assumes "map_of city_coordinates (lower from_city) = None"
    and "map_of city_coordinates (lower to_city) = None"
  shows "calculate_distance from_city to_city = error_payload (not_found_message from_city)
       \<and> calculate_distance from_city to_city = calculate_distance from_city other_city"
  using assms(1) by (simp add: calculate_distance_from_missing)

theorem origin_checked_first_witness:
  "map_of city_coordinates (lower ''Atlantis'') = None
   \<and> map_of city_coordinates (lower ''El Dorado'') = None
   \<and> calculate_distance ''Atlantis'' ''El Dorado'' =
       error_payload ''Coordinates for Atlantis not found. Please try another city.''
   \<and> calculate_distance ''Atlantis'' ''El Dorado'' = calculate_distance ''Atlantis'' ''Madrid''"
proof -
  have a: "map_of city_coordinates (lower ''Atlantis'') = None" by code_simp
  have b: "map_of city_coordinates (lower ''El Dorado'') = None" by code_simp
  from origin_checked_first [OF a b, of "''Madrid''"]
  have c: "calculate_distance ''Atlantis'' ''El Dorado'' =
             error_payload (not_found_message ''Atlantis'')"
    and d: "calculate_distance ''Atlantis'' ''El Dorado'' = calculate_distance ''Atlantis'' ''Madrid''"
    by blast+
  show ?thesis
    using a b c d by (simp add: not_found_message_def)
qed

text \<open>
  Claim C7. A city that is absent from the gazetteer after lower-casing gives an error
  payload, not an exception: the message is built around the name as the caller gave it
  (the origin's when the origin is absent, otherwise the destination's) and contains it.
  The lookup is exact after lower-casing: the call fails exactly when one of the two
  lower-cased names is not a key. The example of the specification,
  \<^verbatim>\<open>calculate_distance("Nowhereville", "Madrid")\<close>, is the witness.
\<close>
theorem missing_city_named:
  "(map_of city_coordinates (lower from_city) = None \<longrightarrow>
      calculate_distance from_city to_city = error_payload (not_found_message from_city))
   \<and> (map_of city_coordinates (lower from_city) \<noteq> None
        \<and> map_of city_coordinates (lower to_city) = None \<longrightarrow>
      calculate_distance from_city to_city = error_payload (not_found_message to_city))
   \<and> sublist from_city (not_found_message from_city)
   \<and> sublist to_city (not_found_message to_city)
   \<and> (has_error (calculate_distance from_city to_city) \<longleftrightarrow>
        lower from_city \<notin> set (map fst city_coordinates)
        \<or> lower to_city \<notin> set (map fst city_coordinates))"
proof (intro conjI impI)
  assume "map_of city_coordinates (lower from_city) = None"
  then show "calculate_distance from_city to_city = error_payload (not_found_message from_city)"
    by (rule calculate_distance_from_missing)
next
  assume "map_of city_coordinates (lower from_city) \<noteq> None
          \<and> map_of city_coordinates (lower to_city) = None"
  then show "calculate_distance from_city to_city = error_payload (not_found_message to_city)"
    by (auto intro: calculate_distance_to_missing)
next
  show "sublist from_city (not_found_message from_city)"
    by (rule sublist_not_found_message)
  show "sublist to_city (not_found_message to_city)"
    by (rule sublist_not_found_message)
next
  show "has_error (calculate_distance from_city to_city) \<longleftrightarrow>
        lower from_city \<notin> set (map fst city_coordinates)
        \<or> lower to_city \<notin> set (map fst city_coordinates)"
  proof (cases "map_of city_coordinates (lower from_city)")
    case None
    then have "lower from_city \<notin> set (map fst city_coordinates)"
      using map_of_keys by blast
    then show ?thesis
      using calculate_distance_from_missing [OF None, of to_city]
      by (simp add: has_error_error_payload)
  next
    case (Some p)
    show ?thesis
    proof (cases "map_of city_coordinates (lower to_city)")
      case None
      then have "lower to_city \<notin> set (map fst city_coordinates)"
        using map_of_keys by blast
      then show ?thesis
        using calculate_distance_to_missing [OF Some None]
        by (simp add: has_error_error_payload)
    next
      case (Some q)
      note p = \<open>map_of city_coordinates (lower from_city) = Some p\<close>
      have "lower from_city \<in> set (map fst city_coordinates)"
        and "lower to_city \<in> set (map fst city_coordinates)"
        using p Some map_of_keys [of "lower from_city"] map_of_keys [of "lower to_city"]
        by auto
      then show ?thesis
        using calculate_distance_found [OF p Some]
        by (simp add: has_error_distance_payload)
    qed
  qed
qed

theorem missing_city_named_witness:
  "map_of city_coordinates (lower ''Nowhereville'') = None
   \<and> calculate_distance ''Nowhereville'' ''Madrid'' =
       error_payload ''Coordinates for Nowhereville not found. Please try another city.''
   \<and> sublist ''Nowhereville'' ''Coordinates for Nowhereville not found. Please try another city.''
   \<and> has_error (calculate_distance ''Nowhereville'' ''Madrid'')
   \<and> map_of city_coordinates (lower ''Madrid'') \<noteq> None
   \<and> calculate_distance ''Madrid'' ''Nowhereville'' =
       error_payload ''Coordinates for Nowhereville not found. Please try another city.''"
proof -
  have a: "map_of city_coordinates (lower ''Nowhereville'') = None" by code_simp
  have b: "map_of city_coordinates (lower ''Madrid'') \<noteq> None" by code_simp
  have c: "lower ''Nowhereville'' \<notin> set (map fst city_coordinates)"
    using a by (simp add: map_of_keys)
  show ?thesis
    using a b c missing_city_named [of "''Nowhereville''" "''Madrid''"]
      missing_city_named [of "''Madrid''" "''Nowhereville''"]
    by (simp add: not_found_message_def has_error_error_payload)
qed

text \<open>
  Claim C9. For a city of the gazetteer, the distance from the city to itself is a
  success payload with \<open>distance_km = 0\<close> and \<open>distance_miles = 0\<close>.
\<close>
theorem distance_to_itself_zero:
  assumes "map_of city_coordinates (lower city) = Some p"
  shows "calculate_distance city city = distance_payload city city 0 0"
  using calculate_distance_found [OF assms assms]
  by (simp add: spec_distance_km_same round_half_even_0)

theorem distance_to_itself_zero_witness:
  "map_of city_coordinates (lower ''Tokyo'') = Some \<lparr>lat = 35.6762, lon = 139.6503\<rparr>
   \<and> calculate_distance ''Tokyo'' ''Tokyo'' =
       [(''from_city'', PStr ''Tokyo''), (''to_city'', PStr ''Tokyo''),
        (''distance_km'', PFloat 0), (''distance_miles'', PFloat 0)]"
proof -
  have a: "map_of city_coordinates (lower ''Tokyo'') = Some \<lparr>lat = 35.6762, lon = 139.6503\<rparr>"
    by code_simp
  show ?thesis
    using a distance_to_itself_zero [OF a] by (simp add: distance_payload_def)
qed

text \<open>
  Claim C8. For two cities of the gazetteer, \<open>calculate_distance a b\<close> and
  \<open>calculate_distance b a\<close> are success payloads with the same \<open>distance_km\<close> and the
  same \<open>distance_miles\<close>. Over the reals the two are equal, which is within every
  rounding tolerance.
\<close>
theorem distance_symmetric:
  assumes "map_of city_coordinates (lower a) = Some p"
    and "map_of city_coordinates (lower b) = Some q"
  shows "\<exists>km miles. calculate_distance a b = distance_payload a b km miles
                  \<and> calculate_distance b a = distance_payload b a km miles"
proof -
  have "calculate_distance b a =
      distance_payload b a (round_half_even 2 (spec_distance_km p q))
        (round_half_even 2 (spec_distance_km p q * 0.621371))"
    using calculate_distance_found [OF assms(2) assms(1)]
    by (simp add: spec_distance_km_sym [of q p])
  with calculate_distance_found [OF assms(1) assms(2)] show ?thesis
    by blast
qed

theorem distance_symmetric_witness:
  "map_of city_coordinates (lower ''Paris'') = Some \<lparr>lat = 48.8566, lon = 2.3522\<rparr>
   \<and> map_of city_coordinates (lower ''rome'') = Some \<lparr>lat = 41.9028, lon = 12.4964\<rparr>
   \<and> (\<exists>km miles. calculate_distance ''Paris'' ''rome'' = distance_payload ''Paris'' ''rome'' km miles
                 \<and> calculate_distance ''rome'' ''Paris'' = distance_payload ''rome'' ''Paris'' km miles)"
proof -
  have a: "map_of city_coordinates (lower ''Paris'') = Some \<lparr>lat = 48.8566, lon = 2.3522\<rparr>"
    by code_simp
  have b: "map_of city_coordinates (lower ''rome'') = Some \<lparr>lat = 41.9028, lon = 12.4964\<rparr>"
    by code_simp
  show ?thesis
    using a b distance_symmetric [OF a b] by simp
qed

text \<open>
  Claim C2. For two names found in the gazetteer, the kilometres returned are the
  haversine distance of the specification (\<open>spec_distance_km\<close>: radians, \<open>a\<close>,
  \<open>c = 2 asin(\<surd>a)\<close>, \<open>c \<times> 6371\<close>) rounded half to even to 2 decimal places, and the
  miles are the unrounded kilometres times 0.621371, rounded the same way. The square
  root and the arc sine never raise here, since \<open>0 \<le> a \<le> 1\<close>.
\<close>
theorem distance_by_haversine:
  assumes "map_of city_coordinates (lower from_city) = Some p"
    and "map_of city_coordinates (lower to_city) = Some q"
  shows "calculate_distance from_city to_city =
     [(''from_city'', PStr from_city),
      (''to_city'', PStr to_city),
      (''distance_km'', PFloat (round_half_even 2 (spec_distance_km p q))),
      (''distance_miles'', PFloat (round_half_even 2 (spec_distance_km p q * 0.621371)))]"
  using calculate_distance_found [OF assms] by (simp add: distance_payload_def)

theorem distance_by_haversine_witness:
  "map_of city_coordinates (lower ''malaga'') = Some \<lparr>lat = 36.7213, lon = - 4.4213\<rparr>
   \<and> map_of city_coordinates (lower ''madrid'') = Some \<lparr>lat = 40.4168, lon = - 3.7038\<rparr>
   \<and> calculate_distance ''malaga'' ''madrid'' =
     [(''from_city'', PStr ''malaga''),
      (''to_city'', PStr ''madrid''),
      (''distance_km'', PFloat (round_half_even 2
          (spec_distance_km \<lparr>lat = 36.7213, lon = - 4.4213\<rparr> \<lparr>lat = 40.4168, lon = - 3.7038\<rparr>))),
      (''distance_miles'', PFloat (round_half_even 2
          (spec_distance_km \<lparr>lat = 36.7213, lon = - 4.4213\<rparr> \<lparr>lat = 40.4168, lon = - 3.7038\<rparr>
           * 0.621371)))]"
proof -
  have a: "map_of city_coordinates (lower ''malaga'') = Some \<lparr>lat = 36.7213, lon = - 4.4213\<rparr>"
    by code_simp
  have b: "map_of city_coordinates (lower ''madrid'') = Some \<lparr>lat = 40.4168, lon = - 3.7038\<rparr>"
    by code_simp
  show ?thesis
    using a b distance_by_haversine [OF a b] by simp
qed

text \<open>
  Claim C3, as amended. The gazetteer holds exactly the entries the specification lists,
  with the listed coordinates, under lower-case keys and no other key; the list has 24
  entries, not 22.
\<close>
theorem gazetteer_entries:
  "map (\<lambda>(k, c). (k, lat c, lon c)) city_coordinates = listed_entries
   \<and> map_of city_coordinates k =
       map_option (\<lambda>(la, lo). \<lparr>lat = la, lon = lo\<rparr>) (map_of listed_entries k)
   \<and> distinct (map fst city_coordinates)
   \<and> card (set (map fst city_coordinates)) = 24
   \<and> map lower (map fst city_coordinates) = map fst city_coordinates"
  using listed map_of_listed distinct_keys card_keys lower_keys by simp

theorem gazetteer_entries_witness:
  "map_of city_coordinates ''dubai'' = Some \<lparr>lat = 25.2048, lon = 55.2708\<rparr>
   \<and> map_of city_coordinates ''oslo'' = None
   \<and> length listed_entries = 24"
  using gazetteer_entries [of "''dubai''"] gazetteer_entries [of "''oslo''"]
  by (simp add: listed_entries_def)

text \<open>The count the claim gives, 22, is not the number of keys.\<close>

theorem gazetteer_not_22: "card (set (map fst city_coordinates)) \<noteq> 22"
  using card_keys by simp




section \<open>What the weather tool returns\<close>


lemma subscript_obj_missing:
  "map_of d k = None \<Longrightarrow> subscript (JObj d) (KStr k) = Inl (KeyError (KStr k))"
  by (simp add: getitem_def)








lemma weather_data_shape:
  assumes "weather_data city data = Inr r"
  shows "\<exists>t tf c h w p. r = weather_payload city t tf c h w p"
  using assms unfolding weather_data_def and_then_def Let_def weather_payload_def
  by (auto split: sum.splits)

lemma has_error_weather_payload: "\<not> has_error (weather_payload city t tf c h w p)"
  by (simp add: has_error_def weather_payload_def)

lemma get_weather_try_cases:
  "get_weather_try environ requests_get city =
     (case requests_get (request_url environ city) of
        Inl e \<Rightarrow> Inl e
      | Inr resp \<Rightarrow>
          if status_code resp = 200
          then (case json resp of Inl e \<Rightarrow> Inl e | Inr data \<Rightarrow> weather_data city data)
          else Inr (error_payload (api_error_message resp)))"
  by (simp add: get_weather_try_def request_url_def and_then_def Let_def error_payload_def
      api_error_message_def split: sum.splits)

lemma get_weather_raised:
  assumes "get_weather_try environ requests_get city = Inl e"
  shows "get_weather environ requests_get city =
     error_payload
       (case e of
          RequestException m \<Rightarrow> ''Network error: '' @ m
        | KeyError k \<Rightarrow> ''Could not parse weather data: '' @ repr_key k
        | _ \<Rightarrow> str_exn e)"
  using assms by (cases e) (simp_all add: get_weather_def error_payload_def)

lemma get_weather_returned:
  assumes "get_weather_try environ requests_get city = Inr r"
  shows "get_weather environ requests_get city = r"
  using assms by (simp add: get_weather_def)



lemma get_weather_error_or_success:
  "(\<exists>msg. get_weather environ requests_get city = error_payload msg)
   \<and> (\<nexists>resp data r. requests_get (request_url environ city) = Inr resp
          \<and> status_code resp = 200 \<and> json resp = Inr data
          \<and> weather_data city data = Inr r)
   \<or> (\<exists>t tf c h w p. get_weather environ requests_get city = weather_payload city t tf c h w p)
     \<and> (\<exists>resp data r. requests_get (request_url environ city) = Inr resp
          \<and> status_code resp = 200 \<and> json resp = Inr data
          \<and> weather_data city data = Inr r)"
proof (cases "get_weather_try environ requests_get city")
  case (Inl e)
  then have "\<exists>msg. get_weather environ requests_get city = error_payload msg"
    using get_weather_raised by blast
  moreover have "\<nexists>resp data r. requests_get (request_url environ city) = Inr resp
          \<and> status_code resp = 200 \<and> json resp = Inr data
          \<and> weather_data city data = Inr r"
    using Inl by (auto simp add: get_weather_try_cases)
  ultimately show ?thesis by blast
next
  case (Inr r)
  then have g: "get_weather environ requests_get city = r"
    by (rule get_weather_returned)
  from Inr obtain resp where resp: "requests_get (request_url environ city) = Inr resp"
    by (auto simp add: get_weather_try_cases split: sum.splits)
  show ?thesis
  proof (cases "status_code resp = 200")
    case False
    with Inr resp have "r = error_payload (api_error_message resp)"
      by (simp add: get_weather_try_cases)
    with g resp False show ?thesis by auto
  next
    case True
    with Inr resp obtain data where data: "json resp = Inr data"
      and wd: "weather_data city data = Inr r"
      by (auto simp add: get_weather_try_cases split: sum.splits)
    from weather_data_shape [OF wd] g
    have "\<exists>t tf c h w p. get_weather environ requests_get city = weather_payload city t tf c h w p"
      by simp
    with resp True data wd show ?thesis by blast
  qed
qed



section \<open>Claims about the tool boundary and the weather tool\<close>

text \<open>
  Claim C1. Both tools are total: every exception of the class \<^verbatim>\<open>Exception\<close> that the
  body of a tool can raise is caught by one of its \<^verbatim>\<open>except\<close> clauses, and what comes
  back is a dictionary. That dictionary is either \<^verbatim>\<open>{"error": msg}\<close>, which has the
  \<^verbatim>\<open>error\<close> field, or a success payload (four fields for the distance, seven for the
  weather), which has none. For the weather tool the \<^verbatim>\<open>error\<close> field is present exactly
  when the call did not go through: no response, a status other than 200, no JSON, or a
  value of the dictionary display that raised. (For the distance tool the same is the
  last part of claim C7.)
\<close>
theorem tools_return_tagged_payloads:
  "((\<exists>msg. calculate_distance from_city to_city = error_payload msg)
      \<and> has_error (calculate_distance from_city to_city)
    \<or> (\<exists>km miles. calculate_distance from_city to_city
                     = distance_payload from_city to_city km miles)
      \<and> \<not> has_error (calculate_distance from_city to_city))
   \<and> ((\<exists>msg. get_weather environ requests_get city = error_payload msg)
      \<and> has_error (get_weather environ requests_get city)
    \<or> (\<exists>t tf c h w p. get_weather environ requests_get city
                        = weather_payload city t tf c h w p)
      \<and> \<not> has_error (get_weather environ requests_get city))
   \<and> (has_error (get_weather environ requests_get city) \<longleftrightarrow>
        (\<nexists>resp data r. requests_get (request_url environ city) = Inr resp
            \<and> status_code resp = 200 \<and> json resp = Inr data
            \<and> weather_data city data = Inr r))"
proof -
  have d: "(\<exists>msg. calculate_distance from_city to_city = error_payload msg)
      \<and> has_error (calculate_distance from_city to_city)
    \<or> (\<exists>km miles. calculate_distance from_city to_city
                     = distance_payload from_city to_city km miles)
      \<and> \<not> has_error (calculate_distance from_city to_city)"
  proof (cases "map_of city_coordinates (lower from_city)")
    case None
    from calculate_distance_from_missing [OF None, of to_city] show ?thesis
      by (auto simp add: has_error_error_payload)
  next
    case (Some p)
    note p = this
    show ?thesis
    proof (cases "map_of city_coordinates (lower to_city)")
      case None
      from calculate_distance_to_missing [OF p None] show ?thesis
        by (auto simp add: has_error_error_payload)
    next
      case (Some q)
      from calculate_distance_found [OF p Some] show ?thesis
        by (auto simp add: has_error_distance_payload)
    qed
  qed
  have w: "(\<exists>msg. get_weather environ requests_get city = error_payload msg)
      \<and> has_error (get_weather environ requests_get city)
      \<and> (\<nexists>resp data r. requests_get (request_url environ city) = Inr resp
            \<and> status_code resp = 200 \<and> json resp = Inr data
            \<and> weather_data city data = Inr r)
    \<or> (\<exists>t tf c h w p. get_weather environ requests_get city
                        = weather_payload city t tf c h w p)
      \<and> \<not> has_error (get_weather environ requests_get city)
      \<and> (\<exists>resp data r. requests_get (request_url environ city) = Inr resp
            \<and> status_code resp = 200 \<and> json resp = Inr data
            \<and> weather_data city data = Inr r)"
  proof -
    from get_weather_error_or_success [of environ requests_get city]
    consider (err) msg where "get_weather environ requests_get city = error_payload msg"
        and "\<nexists>resp data r. requests_get (request_url environ city) = Inr resp
            \<and> status_code resp = 200 \<and> json resp = Inr data
            \<and> weather_data city data = Inr r"
      | (ok) t tf c h w p where
        "get_weather environ requests_get city = weather_payload city t tf c h w p"
        and "\<exists>resp data r. requests_get (request_url environ city) = Inr resp
            \<and> status_code resp = 200 \<and> json resp = Inr data
            \<and> weather_data city data = Inr r"
      by blast
    then show ?thesis
    proof cases
      case err
      have "has_error (get_weather environ requests_get city)"
        by (simp only: err(1) has_error_error_payload)
      with err show ?thesis by blast
    next
      case ok
      have "\<not> has_error (get_weather environ requests_get city)"
        by (simp only: ok(1) has_error_weather_payload not_False_eq_True)
      with ok show ?thesis by blast
    qed
  qed
  from w have w1: "(\<exists>msg. get_weather environ requests_get city = error_payload msg)
      \<and> has_error (get_weather environ requests_get city)
    \<or> (\<exists>t tf c h w p. get_weather environ requests_get city
                        = weather_payload city t tf c h w p)
      \<and> \<not> has_error (get_weather environ requests_get city)"
    by blast
  from w have w2: "has_error (get_weather environ requests_get city) \<longleftrightarrow>
        (\<nexists>resp data r. requests_get (request_url environ city) = Inr resp
            \<and> status_code resp = 200 \<and> json resp = Inr data
            \<and> weather_data city data = Inr r)"
    by blast
  from d w1 w2 show ?thesis by blast
qed

theorem tools_return_tagged_payloads_witness:
  "get_weather Map.empty (\<lambda>url. Inl (RequestException ''timed out'')) ''London''
     = error_payload ''Network error: timed out''
   \<and> has_error (get_weather Map.empty (\<lambda>url. Inl (RequestException ''timed out'')) ''London'')
   \<and> has_error (calculate_distance ''Nowhereville'' ''Madrid'')
   \<and> \<not> has_error (calculate_distance ''London'' ''Paris'')"
proof -
  have a: "map_of city_coordinates (lower ''Nowhereville'') = None" by code_simp
  have b: "map_of city_coordinates (lower ''London'') = Some \<lparr>lat = 51.5074, lon = - 0.1278\<rparr>"
    by code_simp
  have c: "map_of city_coordinates (lower ''Paris'') = Some \<lparr>lat = 48.8566, lon = 2.3522\<rparr>"
    by code_simp
  have g: "get_weather Map.empty (\<lambda>url. Inl (RequestException ''timed out'')) ''London''
     = error_payload ''Network error: timed out''"
    by (simp add: get_weather_def get_weather_try_def and_then_def Let_def error_payload_def)
  show ?thesis
    using g tools_return_tagged_payloads [of "''Nowhereville''" "''Madrid''" Map.empty
        "\<lambda>url. Inl (RequestException ''timed out'')" "''London''"]
      tools_return_tagged_payloads [of "''London''" "''Paris''" Map.empty
        "\<lambda>url. Inl (RequestException ''timed out'')" "''London''"]
      calculate_distance_from_missing [OF a, of "''Madrid''"]
      calculate_distance_found [OF b c]
    by (auto simp add: has_error_error_payload has_error_distance_payload)
qed






end
